theory Spec2Isabelle
  imports Main
begin

section \<open>Data model\<close>

text \<open>
  \<^verbatim>\<open>type Some<T> = { readonly value: T; type: "some" }\<close>,
  \<^verbatim>\<open>type None = { readonly type: "none" }\<close> and
  \<^verbatim>\<open>type Option<T> = Some<T> | None\<close> (option.ts): a union discriminated by the
  \<^verbatim>\<open>type\<close> field. The constructors carry the suffix T because \<open>Some\<close> and \<open>None\<close>
  are taken by HOL's own option type.
\<close>

datatype 't Option = SomeT 't | NoneT

text \<open>
  \<^verbatim>\<open>type Err<E> = { readonly type: "err"; value: E }\<close>,
  \<^verbatim>\<open>type Ok<T> = { readonly type: "ok"; value: T }\<close> and
  \<^verbatim>\<open>type Result<T, E> = Ok<T> | Err<E>\<close> (result.ts).
\<close>

datatype ('t, 'e) Result = Ok 't | Err 'e

text \<open>
  A caller-supplied function of TypeScript type \<^verbatim>\<open>(value: T) => U\<close> may do more than
  return: it may raise, and it may read and change the state of the program around the
  library (a call counter, say). It is modelled as a function that takes its argument and
  the state \<open>'s\<close> before the call and gives either the raised value (\<open>Inl\<close>) or the
  returned value (\<open>Inr\<close>), with the state after the call.
\<close>

type_synonym ('s, 'x, 'a) effect = "'s \<Rightarrow> ('x + 'a) \<times> 's"

text \<open>A callback without effects, such as \<^verbatim>\<open>(x) => x * 2\<close> of the tests.\<close>

definition pure_fn :: "('t \<Rightarrow> 'u) \<Rightarrow> 't \<Rightarrow> ('s, 'x, 'u) effect" where
  "pure_fn f v s = (Inr (f v), s)"

text \<open>
  Both modules export \<^verbatim>\<open>unwrap\<close>, \<^verbatim>\<open>map\<close>, \<^verbatim>\<open>then\<close> and \<^verbatim>\<open>all\<close>, and result.ts exports
  \<^verbatim>\<open>or\<close>; these carry the name of their module in front (\<open>Option_map\<close>,
  \<open>Result_map\<close>, \<open>Result_or\<close>). Every other function keeps its name.
\<close>

section \<open>The Option module (option.ts)\<close>

text \<open>
  \<^verbatim>\<open>export function Some<T>(value: T): Option<T> { return { type: "some", value }; }\<close>
  \<^verbatim>\<open>export function None<T>(): Option<T> { return { type: "none" }; }\<close>
  The tests and the documented copy of the module import the two factories as
  \<^verbatim>\<open>some\<close> and \<^verbatim>\<open>none\<close>; these names are used here.
\<close>

definition some :: "'t \<Rightarrow> 't Option" where
  "some v = SomeT v"

definition none :: "'t Option" where
  "none = NoneT"

text \<open>\<^verbatim>\<open>return option.type === "some";\<close>\<close>

fun is_some :: "'t Option \<Rightarrow> bool" where
  "is_some (SomeT v) = True"
| "is_some NoneT = False"

text \<open>\<^verbatim>\<open>return !is_some(option);\<close>\<close>

definition is_none :: "'t Option \<Rightarrow> bool" where
  "is_none option = (\<not> is_some option)"


text \<open>
  \<^verbatim>\<open>case "some": return { type: "some", value: predicate(option.value) };\<close>
  \<^verbatim>\<open>default: return { type: "none" };\<close>
  A value raised by \<^verbatim>\<open>predicate\<close> leaves \<^verbatim>\<open>map\<close> as it is.
\<close>

fun Option_map :: "'t Option \<Rightarrow> ('t \<Rightarrow> ('s, 'x, 'u) effect) \<Rightarrow> ('s, 'x, 'u Option) effect" where
  "Option_map (SomeT v) predicate s =
     (case predicate v s of
        (Inl x, s') \<Rightarrow> (Inl x, s')
      | (Inr u, s') \<Rightarrow> (Inr (SomeT u), s'))"
| "Option_map NoneT predicate s = (Inr NoneT, s)"

text \<open>
  \<^verbatim>\<open>case "some": return apply(option.value);\<close>
  \<^verbatim>\<open>default: return { type: "none" };\<close>
\<close>

fun Option_then :: "'t Option \<Rightarrow> ('t \<Rightarrow> ('s, 'x, 'u Option) effect) \<Rightarrow> ('s, 'x, 'u Option) effect" where
  "Option_then (SomeT v) apply s = apply v s"
| "Option_then NoneT apply s = (Inr NoneT, s)"

text \<open>
  The reducer of \<^verbatim>\<open>all\<close>:
  \<^verbatim>\<open>if (option.type === "none" || acc.type === "none") { return { type: "none" }; }\<close>
  \<^verbatim>\<open>return { type: "some", value: [...acc.value, option.value] };\<close>
\<close>

fun Option_all_step :: "'t list Option \<Rightarrow> 't Option \<Rightarrow> 't list Option" where
  "Option_all_step acc NoneT = NoneT"
| "Option_all_step NoneT (SomeT v) = NoneT"
| "Option_all_step (SomeT vs) (SomeT v) = SomeT (vs @ [v])"

text \<open>
  \<^verbatim>\<open>return list.reduce<Option<Array<T>>>((acc, option) => ..., { type: "some", value: [] });\<close>
  \<^verbatim>\<open>reduce\<close> with an initial value is a fold from the left over the elements in index
  order.
\<close>

definition Option_all :: "'t Option list \<Rightarrow> 't list Option" where
  "Option_all list = foldl Option_all_step (SomeT []) list"

section \<open>The Result module (result.ts)\<close>

text \<open>
  \<^verbatim>\<open>export function ok<T>(value: T): Result<T, never> { return { type: "ok", value }; }\<close>
  \<^verbatim>\<open>export function err<E>(value: E): Result<never, E> { return { type: "err", value }; }\<close>
\<close>

definition ok :: "'t \<Rightarrow> ('t, 'e) Result" where
  "ok v = Ok v"

definition err :: "'e \<Rightarrow> ('t, 'e) Result" where
  "err e = Err e"

text \<open>\<^verbatim>\<open>return result.type === "ok";\<close>\<close>

fun is_ok :: "('t, 'e) Result \<Rightarrow> bool" where
  "is_ok (Ok v) = True"
| "is_ok (Err e) = False"

text \<open>\<^verbatim>\<open>return !is_ok(result);\<close>\<close>

definition is_err :: "('t, 'e) Result \<Rightarrow> bool" where
  "is_err result = (\<not> is_ok result)"


text \<open>\<^verbatim>\<open>return result.type === "err" ? result.value : with_default;\<close>\<close>

fun unwrap_error :: "('t, 'e) Result \<Rightarrow> 'e \<Rightarrow> 'e" where
  "unwrap_error (Err e) with_default = e"
| "unwrap_error (Ok v) with_default = with_default"



text \<open>
  \<^verbatim>\<open>case "ok": return ok(value);\<close>
  \<^verbatim>\<open>default: return result;\<close>
\<close>

fun replace :: "('t, 'e) Result \<Rightarrow> 'u \<Rightarrow> ('u, 'e) Result" where
  "replace (Ok v) new_value = ok new_value"
| "replace (Err e) new_value = Err e"


text \<open>\<^verbatim>\<open>if (is_ok(left)) { return left; } return right;\<close>\<close>

definition Result_or :: "('t, 'e) Result \<Rightarrow> ('t, 'e) Result \<Rightarrow> ('t, 'e) Result" where
  "Result_or left right = (if is_ok left then left else right)"


text \<open>
  The reducer of \<^verbatim>\<open>all\<close>:
  \<^verbatim>\<open>if (acc.type === "err") { return acc; }\<close>
  \<^verbatim>\<open>if (result.type === "err") { return err(result.value); }\<close>
  \<^verbatim>\<open>return { type: "ok", value: [...acc.value, result.value] };\<close>
\<close>

fun Result_all_step :: "('t list, 'e) Result \<Rightarrow> ('t, 'e) Result \<Rightarrow> ('t list, 'e) Result" where
  "Result_all_step (Err a) result = Err a"
| "Result_all_step (Ok vs) (Err e) = err e"
| "Result_all_step (Ok vs) (Ok v) = Ok (vs @ [v])"

text \<open>
  \<^verbatim>\<open>return list.reduce<Result<Array<T>, E>>((acc, result) => ..., { type: "ok", value: [] });\<close>
\<close>

definition Result_all :: "('t, 'e) Result list \<Rightarrow> ('t list, 'e) Result" where
  "Result_all list = foldl Result_all_step (Ok []) list"

section \<open>Runs of the exported operations\<close>

text \<open>
  A function of the library that takes no callback computes its result from its arguments
  alone: run in a program state, it returns that result, raises nothing and leaves the state.
\<close>

definition returns :: "'a \<Rightarrow> ('s, 'x, 'a) effect" where
  "returns a s = (Inr a, s)"





text \<open>
  A callback returns the same in two program states when, on every argument, it returns the
  same value or raises the same value in both.
\<close>

definition same_outcome :: "('a \<Rightarrow> ('s, 'x, 'b) effect) \<Rightarrow> 's \<Rightarrow> 's \<Rightarrow> bool" where
  "same_outcome f s1 s2 = (\<forall>v. fst (f v s1) = fst (f v s2))"







section \<open>Folding over a list of Options\<close>

lemma Option_all_step_NoneT: "Option_all_step NoneT option = NoneT"
  by (cases option) simp_all

lemma foldl_Option_all_step_NoneT: "foldl Option_all_step NoneT list = NoneT"
  by (induction list) (simp_all add: Option_all_step_NoneT)

lemma foldl_Option_all_step_acc:
  "foldl Option_all_step (SomeT acc) list =
     (case foldl Option_all_step (SomeT []) list of
        NoneT \<Rightarrow> NoneT
      | SomeT vs \<Rightarrow> SomeT (acc @ vs))"
proof (induction list arbitrary: acc)
  case Nil
  show ?case by simp
next
  case (Cons option list)
  show ?case
  proof (cases option)
    case NoneT
    then show ?thesis by (simp add: foldl_Option_all_step_NoneT)
  next
    case (SomeT v)
    have "foldl Option_all_step (SomeT (acc @ [v])) list =
            (case foldl Option_all_step (SomeT []) list of
               NoneT \<Rightarrow> NoneT | SomeT vs \<Rightarrow> SomeT ((acc @ [v]) @ vs))"
      by (rule Cons.IH)
    moreover have "foldl Option_all_step (SomeT [v]) list =
            (case foldl Option_all_step (SomeT []) list of
               NoneT \<Rightarrow> NoneT | SomeT vs \<Rightarrow> SomeT ([v] @ vs))"
      by (rule Cons.IH)
    ultimately show ?thesis
      using SomeT by (simp split: Option.split)
  qed
qed

lemma Option_all_append:
  "Option_all (xs @ ys) =
     (case Option_all xs of
        NoneT \<Rightarrow> NoneT
      | SomeT vs \<Rightarrow> (case Option_all ys of NoneT \<Rightarrow> NoneT | SomeT ws \<Rightarrow> SomeT (vs @ ws)))"
proof (cases "Option_all xs")
  case NoneT
  then show ?thesis by (simp add: Option_all_def foldl_Option_all_step_NoneT)
next
  case (SomeT vs)
  then show ?thesis
    using foldl_Option_all_step_acc [of vs ys] by (simp add: Option_all_def)
qed

lemma Option_all_Cons_SomeT:
  "Option_all (SomeT v # list) =
     (case Option_all list of NoneT \<Rightarrow> NoneT | SomeT vs \<Rightarrow> SomeT (v # vs))"
  unfolding Option_all_def
  by (simp add: foldl_Option_all_step_acc [of "[v]" list] split: Option.split)

lemma Option_all_Cons_NoneT: "Option_all (NoneT # list) = NoneT"
  by (simp add: Option_all_def foldl_Option_all_step_NoneT)

lemma Option_all_map_SomeT: "Option_all (map SomeT vs) = SomeT vs"
  by (induction vs) (simp_all add: Option_all_Cons_SomeT, simp add: Option_all_def)

lemma Option_all_has_NoneT: "NoneT \<in> set list \<Longrightarrow> Option_all list = NoneT"
proof (induction list)
  case Nil
  then show ?case by simp
next
  case (Cons option list)
  then show ?case
    by (cases option) (auto simp: Option_all_Cons_SomeT Option_all_Cons_NoneT)
qed

lemma no_NoneT_is_map_SomeT: "NoneT \<notin> set list \<Longrightarrow> \<exists>vs. list = map SomeT vs"
proof (induction list)
  case Nil
  then show ?case by simp
next
  case (Cons option list)
  then obtain vs where "list = map SomeT vs" by auto
  moreover from Cons.prems obtain v where "option = SomeT v" by (cases option) auto
  ultimately have "option # list = map SomeT (v # vs)" by simp
  then show ?case by (rule exI)
qed

lemma some_eq_SomeT: "some = SomeT"
  by (rule ext) (simp add: some_def)

section \<open>Folding over a list of Results\<close>

lemma ok_eq_Ok: "ok = Ok"
  by (rule ext) (simp add: ok_def)

lemma foldl_Result_all_step_Err: "foldl Result_all_step (Err a) list = Err a"
  by (induction list) simp_all

lemma foldl_Result_all_step_Oks:
  "foldl Result_all_step (Ok acc) (map Ok vs) = Ok (acc @ vs)"
  by (induction vs arbitrary: acc) simp_all

lemma Result_all_first_Err: "Result_all (map Ok vs @ Err e # rest) = Err e"
  by (simp add: Result_all_def foldl_Result_all_step_Oks err_def foldl_Result_all_step_Err)

lemma Result_all_map_Ok: "Result_all (map Ok vs) = Ok vs"
  by (simp add: Result_all_def foldl_Result_all_step_Oks)

lemma split_at_first_Err:
  "\<exists>x \<in> set list. is_err x \<Longrightarrow> \<exists>vs e rest. list = map Ok vs @ Err e # rest"
proof (induction list)
  case Nil
  then show ?case by simp
next
  case (Cons result list)
  show ?case
  proof (cases result)
    case (Err e)
    then have "result # list = map Ok [] @ Err e # list" by simp
    then show ?thesis by blast
  next
    case (Ok v)
    with Cons.prems have "\<exists>x \<in> set list. is_err x" by (simp add: is_err_def)
    then obtain vs e rest where "list = map Ok vs @ Err e # rest"
      using Cons.IH by blast
    with Ok have "result # list = map Ok (v # vs) @ Err e # rest" by simp
    then show ?thesis by blast
  qed
qed

lemma all_is_ok_is_map_Ok: "\<forall>x \<in> set list. is_ok x \<Longrightarrow> \<exists>vs. list = map Ok vs"
proof (induction list)
  case Nil
  then show ?case by simp
next
  case (Cons result list)
  then obtain vs where "list = map Ok vs" by auto
  moreover from Cons.prems obtain v where "result = Ok v" by (cases result) auto
  ultimately have "result # list = map Ok (v # vs)" by simp
  then show ?case by (rule exI)
qed

section \<open>Outputs of runs\<close>








lemma same_outcome_pure_fn: "same_outcome (pure_fn f) s1 s2"
  by (simp add: same_outcome_def pure_fn_def)



section \<open>Properties of the Option module\<close>

text \<open>
  C7: for every Option value, \<open>is_none\<close> is the negation of \<open>is_some\<close>; \<open>some v\<close> is
  Some and not None, and \<open>none\<close> is None; exactly one of the two tests holds of any
  value.
\<close>

theorem is_none_negates_is_some:
  "is_none (option :: 't Option) = (\<not> is_some option)
   \<and> is_some (some (v :: 't)) \<and> \<not> is_none (some v)
   \<and> is_none (none :: 't Option) \<and> \<not> is_some (none :: 't Option)
   \<and> is_some option \<noteq> is_none option"
  by (simp add: is_none_def some_def none_def)

text \<open>
  C3: \<open>Option_map\<close> of \<open>some v\<close> returns \<open>some (f v)\<close>: for a callback without effects,
  and for any callback that returns \<open>u\<close> on \<open>v\<close> (the state is then the one the callback
  leaves). \<open>Option_map\<close> of \<open>none\<close> returns \<open>none\<close> whatever the callback is, raises
  nothing and leaves the state as it was: the callback is not invoked.
\<close>

theorem Option_map_functor:
  "Option_map (some v) (pure_fn f) s = (Inr (some (f v)), s)
   \<and> (predicate v s = (Inr u, s') \<longrightarrow> Option_map (some v) predicate s = (Inr (some u), s'))
   \<and> Option_map none predicate s = (Inr none, s)"
  by (simp add: some_def none_def pure_fn_def)

theorem Option_map_functor_witness:
  "(\<lambda>x n. (Inr (x * 2), Suc n)) (21::int) (0::nat) = (Inr 42 :: string + int, 1)
   \<and> Option_map (some (21::int)) (\<lambda>x n. (Inr (x * 2), Suc n)) (0::nat)
       = (Inr (some 42) :: string + int Option, 1)
   \<and> Option_map (none :: int Option) (\<lambda>x n. (Inl ''called'' :: string + int, Suc n)) (0::nat)
       = (Inr none, 0)"
proof -
  let ?counting = "\<lambda>(x::int) (n::nat). (Inr (x * 2) :: string + int, Suc n)"
  let ?raising = "\<lambda>(x::int) (n::nat). (Inl ''called'' :: string + int, Suc n)"
  have returns: "?counting 21 0 = (Inr 42, 1)"
    by simp
  from returns Option_map_functor [where v = 21 and predicate = ?counting and s = 0 and u = 42 and s' = 1]
  have "Option_map (some 21) ?counting 0 = (Inr (some 42), 1)"
    by blast
  moreover from Option_map_functor [where predicate = ?raising and s = 0]
  have "Option_map none ?raising 0 = (Inr none, 0)"
    by blast
  ultimately show ?thesis using returns by blast
qed

text \<open>
  C4: \<open>Option_then\<close> of \<open>some v\<close> is the outcome of the callback on \<open>v\<close> itself, not
  wrapped again; \<open>Option_then\<close> of \<open>none\<close> returns \<open>none\<close> whatever the callback is,
  raises nothing and leaves the state as it was: the callback is not invoked.
\<close>

theorem Option_then_bind:
  "Option_then (some v) apply s = apply v s
   \<and> Option_then (some v) (pure_fn f) s = (Inr (f v), s)
   \<and> Option_then none apply s = (Inr none, s)"
  by (simp add: some_def none_def pure_fn_def)

text \<open>
  C2: \<open>Option_all\<close> returns None when at least one element of the list is None; otherwise
  the list is \<open>map some vs\<close> for its held values \<open>vs\<close> in input order and the result is
  \<open>some vs\<close>; the empty list gives \<open>some []\<close>.
\<close>

theorem Option_all_none_or_values:
  "(none \<in> set list \<longrightarrow> Option_all list = none)
   \<and> (none \<notin> set list \<longrightarrow> (\<exists>vs. list = map some vs \<and> Option_all list = some vs))
   \<and> Option_all (map some vs) = some vs
   \<and> Option_all ([] :: 't Option list) = some []"
  for list :: "'t Option list" and vs :: "'t list"
proof -
  have "none \<in> set list \<longrightarrow> Option_all list = none"
    by (simp add: none_def Option_all_has_NoneT)
  moreover have "none \<notin> set list \<longrightarrow> (\<exists>vs. list = map some vs \<and> Option_all list = some vs)"
  proof
    assume "none \<notin> set list"
    then obtain vs where "list = map SomeT vs"
      using no_NoneT_is_map_SomeT [of list] by (auto simp: none_def)
    then have "list = map some vs \<and> Option_all list = some vs"
      by (simp add: some_eq_SomeT Option_all_map_SomeT)
    then show "\<exists>vs. list = map some vs \<and> Option_all list = some vs" ..
  qed
  moreover have "Option_all (map some vs) = some vs"
    by (simp add: some_eq_SomeT Option_all_map_SomeT)
  moreover have "Option_all ([] :: 't Option list) = some []"
    by (simp add: Option_all_def some_def)
  ultimately show ?thesis by blast
qed

theorem Option_all_none_or_values_witness:
  "none \<in> set [some (1::int), none, some 3]
   \<and> Option_all [some (1::int), none, some 3] = none
   \<and> none \<notin> set [some (1::int), some 2, some 3]
   \<and> (\<exists>vs. [some (1::int), some 2, some 3] = map some vs
         \<and> Option_all [some (1::int), some 2, some 3] = some vs)
   \<and> Option_all [some (1::int), some 2, some 3] = some [1, 2, 3]"
proof -
  let ?absent = "[some (1::int), none, some 3]"
  let ?present = "[some (1::int), some 2, some 3]"
  have has_none: "none \<in> set ?absent"
    by simp
  have no_none: "none \<notin> set ?present"
    by (simp add: some_def none_def)
  from has_none Option_all_none_or_values [where list = ?absent]
  have "Option_all ?absent = none"
    by blast
  moreover from no_none Option_all_none_or_values [where list = ?present]
  have "\<exists>vs. ?present = map some vs \<and> Option_all ?present = some vs"
    by blast
  moreover have "Option_all ?present = some [1, 2, 3]"
    using Option_all_none_or_values [where vs = "[1::int, 2, 3]" and list = "[]"]
    by simp
  ultimately show ?thesis using has_none no_none by blast
qed

text \<open>
  C10: \<open>Option_all\<close> maps concatenation of lists to concatenation of the held values:
  when \<open>Option_all xs = some vs\<close> and \<open>Option_all ys = some ws\<close> then
  \<open>Option_all (xs @ ys) = some (vs @ ws)\<close>, and when either is \<open>none\<close> so is
  \<open>Option_all (xs @ ys)\<close>.
\<close>

theorem Option_all_append_homomorphism:
  "(Option_all xs = some vs \<and> Option_all ys = some ws \<longrightarrow> Option_all (xs @ ys) = some (vs @ ws))
   \<and> (Option_all xs = none \<or> Option_all ys = none \<longrightarrow> Option_all (xs @ ys) = none)"
  by (auto simp: Option_all_append some_def none_def split: Option.split)

theorem Option_all_append_homomorphism_witness:
  "Option_all [some (1::int)] = some [1] \<and> Option_all [some (2::int), some 3] = some [2, 3]
   \<and> Option_all ([some (1::int)] @ [some 2, some 3]) = some ([1] @ [2, 3])
   \<and> Option_all [some (1::int), none] = none
   \<and> Option_all ([some (1::int), none] @ [some 3]) = none"
proof -
  have left: "Option_all [some (1::int)] = some [1]"
    by (simp add: Option_all_def some_def)
  have right: "Option_all [some (2::int), some 3] = some [2, 3]"
    by (simp add: Option_all_def some_def)
  have absent: "Option_all [some (1::int), none] = none"
    by (simp add: Option_all_def some_def none_def)
  from left right
    Option_all_append_homomorphism [where xs = "[some (1::int)]" and vs = "[1]"
      and ys = "[some 2, some 3]" and ws = "[2, 3]"]
  have "Option_all ([some (1::int)] @ [some 2, some 3]) = some ([1] @ [2, 3])"
    by blast
  moreover from absent
    Option_all_append_homomorphism [where xs = "[some (1::int), none]" and ys = "[some 3]"]
  have "Option_all ([some (1::int), none] @ [some 3]) = none"
    by blast
  ultimately show ?thesis using left right absent by blast
qed

section \<open>Properties of the Result module\<close>

text \<open>
  C6: \<open>unwrap_error\<close> of \<open>err e\<close> is \<open>e\<close>, and of \<open>ok v\<close> it is the default.
\<close>

theorem unwrap_error_default:
  "unwrap_error (err e) with_default = e \<and> unwrap_error (ok v) with_default = with_default"
  by (simp add: ok_def err_def)

text \<open>
  C8: \<open>replace\<close> of an Ok returns \<open>ok\<close> of the new value, whatever the old one was;
  \<open>replace\<close> of an Err returns the Err with its own payload.
\<close>

theorem replace_ok_only:
  "replace (ok v) new_value = ok new_value \<and> replace (err e) new_value = err e"
  by (simp add: ok_def err_def)

text \<open>
  C5: \<open>Result_or\<close> returns \<open>left\<close> when \<open>left\<close> is Ok and \<open>right\<close>, unchanged,
  otherwise, whether \<open>right\<close> is Ok or Err.
\<close>

theorem Result_or_fallback:
  "Result_or (ok v) right = ok v
   \<and> Result_or (err e) right = right
   \<and> (is_ok left \<longrightarrow> Result_or left right = left)
   \<and> (\<not> is_ok left \<longrightarrow> Result_or left right = right)"
  by (simp add: Result_or_def ok_def err_def)

theorem Result_or_fallback_witness:
  "is_ok (ok 42 :: (int, string) Result)
   \<and> Result_or (ok 42) (ok 100 :: (int, string) Result) = ok 42
   \<and> \<not> is_ok (err ''e'' :: (int, string) Result)
   \<and> Result_or (err ''e'') (ok 100 :: (int, string) Result) = ok 100"
proof -
  have left_ok: "is_ok (ok 42 :: (int, string) Result)"
    by (simp add: ok_def)
  have left_err: "\<not> is_ok (err ''e'' :: (int, string) Result)"
    by (simp add: err_def)
  from left_ok Result_or_fallback [where left = "ok 42 :: (int, string) Result" and right = "ok 100"]
  have "Result_or (ok 42) (ok 100 :: (int, string) Result) = ok 42"
    by blast
  moreover from left_err
    Result_or_fallback [where left = "err ''e'' :: (int, string) Result" and right = "ok 100"]
  have "Result_or (err ''e'') (ok 100 :: (int, string) Result) = ok 100"
    by blast
  ultimately show ?thesis using left_ok left_err by blast
qed

text \<open>
  C1: \<open>Result_all\<close> returns the first Err of the list in sequence order. A list whose
  elements before some \<open>err e\<close> are all Ok gives \<open>err e\<close>, whatever follows it (Ok or
  Err); every list with an Err element has that shape. A list of Ok elements only gives
  Ok of their values in input order, and the empty list gives \<open>ok []\<close>.
\<close>

theorem Result_all_first_error:
  "Result_all (map ok vs @ err e # rest) = (err e :: ('t list, 'e) Result)
   \<and> ((\<exists>x \<in> set list. is_err x) \<longrightarrow>
        (\<exists>ws a others. list = map ok ws @ err a # others \<and> Result_all list = err a))
   \<and> ((\<forall>x \<in> set list. is_ok x) \<longrightarrow> (\<exists>ws. list = map ok ws \<and> Result_all list = ok ws))
   \<and> Result_all (map ok vs :: ('t, 'e) Result list) = ok vs
   \<and> Result_all ([] :: ('t, 'e) Result list) = ok []"
  for list rest :: "('t, 'e) Result list"
proof -
  have first: "Result_all (map ok vs @ err e # rest) = err e" for vs and e :: 'e and rest :: "('t, 'e) Result list"
    by (simp add: ok_eq_Ok err_def Result_all_first_Err)
  have oks: "Result_all (map ok vs) = (ok vs :: ('t list, 'e) Result)" for vs
    by (simp add: ok_eq_Ok ok_def Result_all_map_Ok)
  have "(\<exists>x \<in> set list. is_err x) \<longrightarrow>
        (\<exists>vs e rest. list = map ok vs @ err e # rest \<and> Result_all list = err e)"
  proof
    assume "\<exists>x \<in> set list. is_err x"
    then obtain vs e rest where "list = map Ok vs @ Err e # rest"
      using split_at_first_Err by blast
    then have "list = map ok vs @ err e # rest" by (simp add: ok_eq_Ok err_def)
    with first show "\<exists>vs e rest. list = map ok vs @ err e # rest \<and> Result_all list = err e"
      by blast
  qed
  moreover have "(\<forall>x \<in> set list. is_ok x) \<longrightarrow> (\<exists>vs. list = map ok vs \<and> Result_all list = ok vs)"
  proof
    assume "\<forall>x \<in> set list. is_ok x"
    then obtain vs where "list = map Ok vs"
      using all_is_ok_is_map_Ok by blast
    then have "list = map ok vs" by (simp add: ok_eq_Ok)
    with oks show "\<exists>vs. list = map ok vs \<and> Result_all list = ok vs" by blast
  qed
  moreover have "Result_all ([] :: ('t, 'e) Result list) = ok []"
    by (simp add: Result_all_def ok_def)
  ultimately show ?thesis using first oks by blast
qed

theorem Result_all_first_error_witness:
  "(\<exists>x \<in> set [ok (1::int), err ''x'', ok 3, err ''y'']. is_err x)
   \<and> (\<exists>vs e rest. [ok (1::int), err ''x'', ok 3, err ''y''] = map ok vs @ err e # rest
         \<and> Result_all [ok (1::int), err ''x'', ok 3, err ''y''] = err e)
   \<and> Result_all [ok (1::int), err ''x'', ok 3, err ''y''] = err ''x''
   \<and> list_all is_ok [ok (1::int), ok 2, ok 3 :: (int, string) Result]
   \<and> (\<exists>vs. [ok (1::int), ok 2, ok 3 :: (int, string) Result] = map ok vs
         \<and> Result_all [ok (1::int), ok 2, ok 3 :: (int, string) Result] = ok vs)"
proof -
  let ?failing = "[ok (1::int), err ''x'', ok 3, err ''y'']"
  let ?passing = "[ok (1::int), ok 2, ok 3 :: (int, string) Result]"
  have has_err: "\<exists>x \<in> set ?failing. is_err x"
    by (simp add: is_err_def ok_def err_def)
  have all_ok: "\<forall>x \<in> set ?passing. is_ok x"
    by (simp add: ok_def)
  have first: "Result_all ?failing = err ''x''"
    using Result_all_first_error [where vs = "[1::int]" and e = "''x''"
        and rest = "[ok (3::int), err ''y''] :: (int, string) Result list" and list = "[]"]
    by simp
  from has_err Result_all_first_error [where list = ?failing]
  have "\<exists>vs e rest. ?failing = map ok vs @ err e # rest \<and> Result_all ?failing = err e"
    by blast
  moreover from all_ok Result_all_first_error [where list = ?passing]
  have "\<exists>vs. ?passing = map ok vs \<and> Result_all ?passing = ok vs"
    by blast
  ultimately show ?thesis using has_err all_ok first by (simp add: list_all_iff)
qed

section \<open>Determinism\<close>




end
